theory Spec2Isabelle
  imports Main "HOL-Library.Word" "HOL-Library.AList"
begin

section \<open>Data model of the key-value node\<close>

text \<open>
  The node of \<^verbatim>\<open>kv/src/node.cpp\<close> is embedded by explicit state passing.
  \<^verbatim>\<open>int64_t\<close> is a 64-bit word and \<^verbatim>\<open>int\<close> a 32-bit word; both are read
  as two's complement by \<open>sint\<close> wherever the source compares them.
  Subtraction wraps around, as it does in the compiled code (C++ itself
  leaves signed overflow undefined).
\<close>

type_synonym int64 = "64 word"
type_synonym int32 = "32 word"

text \<open>
  Values of the JSON library as the handlers see them. \<open>Discarded\<close> is what
  \<^verbatim>\<open>json::parse(text, nullptr, false)\<close> returns for text that does not parse.
  An object is kept as an association list read with \<open>map_of\<close>.
\<close>

datatype json =
    Discarded
  | JNull
  | JBool bool
  | JNum int
  | JStr string
  | JArr "json list"
  | JObj "(string \<times> json) list"

datatype json_exception = type_error_302 | type_error_305 | type_error_306

definition is_discarded :: "json \<Rightarrow> bool" where
  "is_discarded j = (case j of Discarded \<Rightarrow> True | _ \<Rightarrow> False)"

definition is_object :: "json \<Rightarrow> bool" where
  "is_object j = (case j of JObj _ \<Rightarrow> True | _ \<Rightarrow> False)"

text \<open>\<^verbatim>\<open>body.contains(k)\<close>: false on anything that is not an object.\<close>

definition contains :: "json \<Rightarrow> string \<Rightarrow> bool" where
  "contains j k = (case j of JObj kvs \<Rightarrow> map_of kvs k \<noteq> None | _ \<Rightarrow> False)"

text \<open>
  \<^verbatim>\<open>body[k].get<std::string>()\<close>: the element must be a string, otherwise the
  library throws \<^verbatim>\<open>type_error\<close> 302; indexing a value that is neither an object nor
  null throws 305.
\<close>

definition get_string :: "json \<Rightarrow> string \<Rightarrow> json_exception + string" where
  "get_string j k =
     (case j of
        JObj kvs \<Rightarrow>
          (case map_of kvs k of
             Some (JStr s) \<Rightarrow> Inr s
           | _ \<Rightarrow> Inl type_error_302)
      | JNull \<Rightarrow> Inl type_error_302
      | _ \<Rightarrow> Inl type_error_305)"

text \<open>
  \<^verbatim>\<open>body.value(k, dflt)\<close>: the default when the key is absent, the element
  converted to a string when present (302 if it is not one), 306 on a
  non-object.
\<close>

definition value_or :: "json \<Rightarrow> string \<Rightarrow> string \<Rightarrow> json_exception + string" where
  "value_or j k dflt =
     (case j of
        JObj kvs \<Rightarrow>
          (case map_of kvs k of
             None \<Rightarrow> Inr dflt
           | Some (JStr s) \<Rightarrow> Inr s
           | Some _ \<Rightarrow> Inl type_error_302)
      | _ \<Rightarrow> Inl type_error_306)"

record Peer =
  peer_id :: string
  peer_host :: string
  peer_port :: int32

record NodeConfig =
  node_id :: string
  host :: string
  port :: int32
  is_leader :: bool
  leader_host :: string
  leader_port :: int32
  peers :: "Peer list"
  heartbeat_interval_ms :: int32
  heartbeat_timeout_ms :: int32
  log_path :: string

text \<open>
  One line of the event log is one JSON object. The log file at
  \<open>log_path\<close> is the list of the objects appended so far.
\<close>

type_synonym event = "(string \<times> json) list"

text \<open>
  The mutable members of \<^verbatim>\<open>class Node\<close>: the store's \<^verbatim>\<open>kv_\<close>, the two
  failure-detector tables \<^verbatim>\<open>last_ok_ms_\<close> and \<^verbatim>\<open>fd_state_\<close>, the request
  counter \<^verbatim>\<open>op_seq_\<close>, and the contents of the log file. The configuration
  \<^verbatim>\<open>cfg_\<close> never changes and is passed alongside. Every operation below runs
  under the mutex the source takes, so each is one atomic step on this
  record.
\<close>

record Node =
  store :: "string \<rightharpoonup> string"
  last_ok_ms :: "string \<rightharpoonup> int64"
  fd_state :: "string \<rightharpoonup> string"
  op_seq :: int64
  log :: "event list"

section \<open>Store\<close>

definition Store_put :: "string \<Rightarrow> string \<Rightarrow> (string \<rightharpoonup> string) \<Rightarrow> (string \<rightharpoonup> string)" where
  "Store_put k v kv = kv(k \<mapsto> v)"

definition Store_get :: "string \<Rightarrow> (string \<rightharpoonup> string) \<Rightarrow> string option" where
  "Store_get k kv = kv k"

definition Store_del :: "string \<Rightarrow> (string \<rightharpoonup> string) \<Rightarrow> bool \<times> (string \<rightharpoonup> string)" where
  "Store_del k kv = (kv k \<noteq> None, kv(k := None))"

section \<open>Event log\<close>

text \<open>
  \<^verbatim>\<open>Node::log_event\<close>. The fields \<^verbatim>\<open>ts_ms\<close> and \<^verbatim>\<open>ts_iso\<close> are read from the
  wall clock and carry no information about the node; they are left out of
  the event. \<open>extra\<close> is the parsed \<^verbatim>\<open>extra_json\<close>: its members are merged in
  only when it is an object. Writing the line out (\<^verbatim>\<open>dump\<close>, \<^verbatim>\<open>append_jsonl\<close>)
  is taken to succeed.
\<close>

definition log_event :: "NodeConfig \<Rightarrow> string \<Rightarrow> string \<Rightarrow> string \<Rightarrow> json \<Rightarrow> Node \<Rightarrow> Node" where
  "log_event cfg type request_id key extra n =
     (let j0 = [(''node_id'', JStr (node_id cfg)), (''type'', JStr type)];
          j1 = (if request_id \<noteq> [] then AList.update ''rid'' (JStr request_id) j0 else j0);
          j2 = (if key \<noteq> [] then AList.update ''key'' (JStr key) j1 else j1);
          j3 = AList.update ''seq'' (JNum (sint (op_seq n))) j2;
          j4 = (case extra of
                  JObj kvs \<Rightarrow> fold (\<lambda>(k, v). AList.update k v) kvs j3
                | _ \<Rightarrow> j3)
      in n\<lparr>log := log n @ [j4]\<rparr>)"

section \<open>Failure detector\<close>

text \<open>The two lookups with a default that \<^verbatim>\<open>fd_update_peer\<close> starts with.\<close>

definition last_ok_of :: "Node \<Rightarrow> string \<Rightarrow> int64" where
  "last_ok_of n peer = (case last_ok_ms n peer of Some v \<Rightarrow> v | None \<Rightarrow> 0)"

definition state_of :: "Node \<Rightarrow> string \<Rightarrow> string" where
  "state_of n peer = (case fd_state n peer of Some s \<Rightarrow> s | None \<Rightarrow> ''Alive'')"

definition fd_update_peer :: "NodeConfig \<Rightarrow> string \<Rightarrow> bool \<Rightarrow> int64 \<Rightarrow> Node \<Rightarrow> Node" where
  "fd_update_peer cfg peer ok t n0 =
     (let n = (if ok then n0\<lparr>last_ok_ms := (last_ok_ms n0)(peer \<mapsto> t)\<rparr> else n0);
          last_ok = last_ok_of n peer;
          prev = state_of n peer;
          next = (if ok then ''Alive''
                  else if last_ok = 0 then ''Suspected''
                  else (let diff = t - last_ok
                        in if sint diff > sint (heartbeat_timeout_ms cfg) then ''Dead''
                           else ''Suspected''))
      in if next \<noteq> prev then
           log_event cfg ''fd_state_change'' [] []
             (JObj [(''peer_id'', JStr peer), (''from'', JStr prev), (''to'', JStr next)])
             (n\<lparr>fd_state := (fd_state n)(peer \<mapsto> next)\<rparr>)
         else n\<lparr>fd_state := (fd_state n)(peer \<mapsto> prev)\<rparr>)"

definition leader_is_dead :: "NodeConfig \<Rightarrow> int64 \<Rightarrow> Node \<Rightarrow> bool \<times> Node" where
  "leader_is_dead cfg now n =
     (let last = last_ok_of n ''leader''
      in if last = 0 then (False, n)
         else (sint (now - last) > sint (heartbeat_timeout_ms cfg), n))"

section \<open>Replication fan-out\<close>

text \<open>
  \<^verbatim>\<open>Node::replicate_async\<close> starts one detached thread per peer. The model
  returns the list of the tasks started; what a task does once its POST has
  come back (or failed) is \<open>replicate_task_done\<close>, given the HTTP status
  received (\<open>None\<close> when there was no response) and the time \<^verbatim>\<open>now_ms()\<close>
  returned then.
\<close>

record repl_task =
  task_peer :: Peer
  task_body :: json
  task_rid :: string
  task_key :: string

definition replicate_async :: "NodeConfig \<Rightarrow> string \<Rightarrow> string \<Rightarrow> string \<Rightarrow> string \<Rightarrow> repl_task list" where
  "replicate_async cfg request_id opn key val =
     (if \<not> is_leader cfg then []
      else
        (let body = JObj [(''rid'', JStr request_id), (''op'', JStr opn),
                          (''key'', JStr key), (''value'', JStr val)]
         in map (\<lambda>p. \<lparr>task_peer = p, task_body = body,
                       task_rid = request_id, task_key = key\<rparr>) (peers cfg)))"

definition replicate_task_done :: "NodeConfig \<Rightarrow> repl_task \<Rightarrow> int option \<Rightarrow> int64 \<Rightarrow> Node \<Rightarrow> Node" where
  "replicate_task_done cfg task res t n =
     (let p = task_peer task;
          ok = (case res of Some st \<Rightarrow> st = 200 | None \<Rightarrow> False);
          n1 = fd_update_peer cfg (peer_id p) ok t n
      in log_event cfg ''replicate_result'' (task_rid task) (task_key task)
           (JObj [(''peer_id'', JStr (peer_id p)), (''ok'', JBool ok),
                  (''http_status'', JNum (case res of Some st \<Rightarrow> st | None \<Rightarrow> 0))])
           n1)"

section \<open>Request handlers\<close>

text \<open>
  A request as a handler reads it: the \<^verbatim>\<open>rid\<close> query parameter when present,
  the request id \<^verbatim>\<open>make_rid()\<close> would produce for this request otherwise
  (it is built from the clock and an address), and the body as parsed by
  \<^verbatim>\<open>json::parse(req.body, nullptr, false)\<close>.
\<close>

record Request =
  rid_param :: "string option"
  made_rid :: string
  req_body :: json

record Response =
  status :: int
  content :: json

text \<open>A handler either fills in the response or leaves by an exception of the JSON library.\<close>

datatype outcome = Returned Response | Threw json_exception

definition request_rid :: "Request \<Rightarrow> string" where
  "request_rid req = (case rid_param req of Some r \<Rightarrow> r | None \<Rightarrow> made_rid req)"

definition bad_json :: Response where
  "bad_json = \<lparr>status = 400, content = JObj [(''error'', JStr ''bad_json'')]\<rparr>"

definition put_handler :: "NodeConfig \<Rightarrow> Request \<Rightarrow> Node \<Rightarrow> outcome \<times> repl_task list \<times> Node" where
  "put_handler cfg req n0 =
     (let rid = request_rid req;
          n = n0\<lparr>op_seq := op_seq n0 + 1\<rparr>;
          body = req_body req
      in if is_discarded body \<or> \<not> contains body ''key'' \<or> \<not> contains body ''value'' then
           (Returned bad_json, [], log_event cfg ''put_badreq'' rid [] (JObj []) n)
         else
           (case get_string body ''key'' of
              Inl e \<Rightarrow> (Threw e, [], n)
            | Inr key \<Rightarrow>
               (case get_string body ''value'' of
                  Inl e \<Rightarrow> (Threw e, [], n)
                | Inr val \<Rightarrow>
                   if \<not> is_leader cfg then
                     (Returned \<lparr>status = 409, content = JObj [(''error'', JStr ''not_leader'')]\<rparr>,
                      [],
                      log_event cfg ''put_reject_not_leader'' rid key (JObj []) n)
                   else
                     (let n1 = n\<lparr>store := Store_put key val (store n)\<rparr>;
                          n2 = log_event cfg ''put_ok'' rid key
                                 (JObj [(''value_len'', JNum (int (length val)))]) n1;
                          tasks = replicate_async cfg rid ''PUT'' key val
                      in (Returned \<lparr>status = 200,
                                     content = JObj [(''ok'', JBool True), (''rid'', JStr rid)]\<rparr>,
                          tasks, n2)))))"

definition get_handler :: "NodeConfig \<Rightarrow> Request \<Rightarrow> Node \<Rightarrow> outcome \<times> Node" where
  "get_handler cfg req n0 =
     (let rid = request_rid req;
          n = n0\<lparr>op_seq := op_seq n0 + 1\<rparr>;
          body = req_body req
      in if is_discarded body \<or> \<not> contains body ''key'' then
           (Returned bad_json, log_event cfg ''get_badreq'' rid [] (JObj []) n)
         else
           (case get_string body ''key'' of
              Inl e \<Rightarrow> (Threw e, n)
            | Inr key \<Rightarrow>
               (case Store_get key (store n) of
                  None \<Rightarrow>
                    (Returned \<lparr>status = 404,
                               content = JObj [(''ok'', JBool False), (''rid'', JStr rid),
                                               (''found'', JBool False)]\<rparr>,
                     log_event cfg ''get_notfound'' rid key (JObj []) n)
                | Some v \<Rightarrow>
                    (Returned \<lparr>status = 200,
                               content = JObj [(''ok'', JBool True), (''rid'', JStr rid),
                                               (''found'', JBool True), (''value'', JStr v)]\<rparr>,
                     log_event cfg ''get_ok'' rid key
                       (JObj [(''value_len'', JNum (int (length v)))]) n))))"

definition ping_handler :: "Node \<Rightarrow> outcome \<times> Node" where
  "ping_handler n = (Returned \<lparr>status = 200, content = JObj [(''ok'', JBool True)]\<rparr>, n)"

definition replicate_handler :: "NodeConfig \<Rightarrow> Request \<Rightarrow> Node \<Rightarrow> outcome \<times> Node" where
  "replicate_handler cfg req n =
     (let body = req_body req
      in if is_discarded body \<or> \<not> contains body ''op'' \<or> \<not> contains body ''key''
            \<or> \<not> contains body ''rid'' then
           (Returned bad_json, n)
         else
           (case get_string body ''op'' of
              Inl e \<Rightarrow> (Threw e, n)
            | Inr opn \<Rightarrow>
               (case get_string body ''key'' of
                  Inl e \<Rightarrow> (Threw e, n)
                | Inr key \<Rightarrow>
                   (case get_string body ''rid'' of
                      Inl e \<Rightarrow> (Threw e, n)
                    | Inr rid \<Rightarrow>
                       (case value_or body ''value'' [] of
                          Inl e \<Rightarrow> (Threw e, n)
                        | Inr val \<Rightarrow>
                           (let n1 = (if opn = ''PUT'' then
                                        n\<lparr>store := Store_put key val (store n)\<rparr>
                                      else if opn = ''DEL'' then
                                        n\<lparr>store := snd (Store_del key (store n))\<rparr>
                                      else n)
                            in (Returned \<lparr>status = 200, content = JObj [(''ok'', JBool True)]\<rparr>,
                                log_event cfg ''replicate_apply'' rid key
                                  (JObj [(''op'', JStr opn)]) n1)))))))"

section \<open>A node at start-up\<close>

text \<open>
  The member initialisers of \<^verbatim>\<open>NodeConfig\<close> in \<^verbatim>\<open>node.h\<close>, and a freshly
  constructed \<^verbatim>\<open>Node\<close>: empty tables, \<^verbatim>\<open>op_seq_\<close> zero, nothing logged yet.
\<close>

definition NodeConfig_default :: NodeConfig where
  "NodeConfig_default =
     \<lparr>node_id = [], host = ''127.0.0.1'', port = 0, is_leader = False,
      leader_host = ''127.0.0.1'', leader_port = 0, peers = [],
      heartbeat_interval_ms = 100, heartbeat_timeout_ms = 500,
      log_path = ''node.jsonl''\<rparr>"

definition Node_init :: Node where
  "Node_init = \<lparr>store = Map.empty, last_ok_ms = Map.empty, fd_state = Map.empty,
                op_seq = 0, log = []\<rparr>"

text \<open>A run of failure-detector calls, each a triple of peer id, success flag and time.\<close>

definition record_outcomes :: "NodeConfig \<Rightarrow> (string \<times> bool \<times> int64) list \<Rightarrow> Node \<Rightarrow> Node" where
  "record_outcomes cfg calls n = fold (\<lambda>(peer, ok, t). fd_update_peer cfg peer ok t) calls n"

section \<open>Notions used to state the properties\<close>

text \<open>
  Completed replication tasks applied in the order they finish: each entry is
  a task, the HTTP status it received (if any) and its completion time.
\<close>

definition replication_results ::
    "NodeConfig \<Rightarrow> (repl_task \<times> int option \<times> int64) list \<Rightarrow> Node \<Rightarrow> Node" where
  "replication_results cfg rs n =
     fold (\<lambda>(task, res, t). replicate_task_done cfg task res t) rs n"

text \<open>The same internal replicate request delivered \<open>k\<close> times in a row.\<close>

definition replay :: "NodeConfig \<Rightarrow> Request \<Rightarrow> nat \<Rightarrow> Node \<Rightarrow> Node" where
  "replay cfg req k n = ((\<lambda>m. snd (replicate_handler cfg req m)) ^^ k) n"

definition event_field :: "event \<Rightarrow> string \<Rightarrow> json option" where
  "event_field ev k = map_of ev k"

text \<open>The line \<^verbatim>\<open>fd_update_peer\<close> writes when the state of a peer changes.\<close>

definition fd_state_change_event ::
    "NodeConfig \<Rightarrow> Node \<Rightarrow> string \<Rightarrow> string \<Rightarrow> string \<Rightarrow> event" where
  "fd_state_change_event cfg n peer from to =
     [(''node_id'', JStr (node_id cfg)), (''type'', JStr ''fd_state_change''),
      (''seq'', JNum (sint (op_seq n))),
      (''peer_id'', JStr peer), (''from'', JStr from), (''to'', JStr to)]"

section \<open>Basic facts\<close>

lemma log_event_fields [simp]:
  "store (log_event cfg ty r k e n) = store n"
  "last_ok_ms (log_event cfg ty r k e n) = last_ok_ms n"
  "fd_state (log_event cfg ty r k e n) = fd_state n"
  "op_seq (log_event cfg ty r k e n) = op_seq n"
  by (simp_all add: log_event_def Let_def)

lemma log_event_views [simp]:
  "last_ok_of (log_event cfg ty r k e n) = last_ok_of n"
  "state_of (log_event cfg ty r k e n) = state_of n"
  by (simp_all add: last_ok_of_def state_of_def fun_eq_iff)

lemma log_event_type:
  "\<exists>ev. log (log_event cfg ty r k (JObj []) n) = log n @ [ev]
        \<and> event_field ev ''type'' = Some (JStr ty)"
  by (simp add: log_event_def Let_def event_field_def)

lemma contains_JObj: "contains (JObj kvs) k \<longleftrightarrow> map_of kvs k \<noteq> None"
  by (simp add: contains_def)

lemma get_string_JObj:
  "map_of kvs k = Some (JStr s) \<Longrightarrow> get_string (JObj kvs) k = Inr s"
  by (simp add: get_string_def)

lemma NodeConfig_default_fields:
  "node_id NodeConfig_default = []"
  "is_leader NodeConfig_default = False"
  "heartbeat_timeout_ms NodeConfig_default = 500"
  by (simp_all add: NodeConfig_default_def)

lemma Node_init_fields:
  "store Node_init = Map.empty"
  "last_ok_ms Node_init = Map.empty"
  "fd_state Node_init = Map.empty"
  "op_seq Node_init = 0"
  "log Node_init = []"
  by (simp_all add: Node_init_def)

subsection \<open>One call of the failure detector\<close>

lemma fd_update_peer_last_ok_ms:
  "last_ok_ms (fd_update_peer cfg peer ok t n) =
     (if ok then (last_ok_ms n)(peer \<mapsto> t) else last_ok_ms n)"
  by (simp add: fd_update_peer_def Let_def)

lemma fd_update_peer_last_ok_of:
  "last_ok_of (fd_update_peer cfg q ok t n) peer =
     (if ok \<and> q = peer then t else last_ok_of n peer)"
  by (simp add: last_ok_of_def fd_update_peer_last_ok_ms)

text \<open>Both branches of the final \<^verbatim>\<open>if\<close> store the computed \<^verbatim>\<open>next\<close> for the peer.\<close>

lemma fd_update_peer_state_of:
  "state_of (fd_update_peer cfg peer ok t n) peer =
     (if ok then ''Alive''
      else if last_ok_of n peer = 0 then ''Suspected''
      else if sint (t - last_ok_of n peer) > sint (heartbeat_timeout_ms cfg) then ''Dead''
      else ''Suspected'')"
  by (simp add: fd_update_peer_def Let_def state_of_def last_ok_of_def)

lemma fd_update_peer_other:
  "q \<noteq> peer \<Longrightarrow> state_of (fd_update_peer cfg q ok t n) peer = state_of n peer"
  by (simp add: fd_update_peer_def Let_def state_of_def last_ok_of_def)

lemma fd_update_peer_store [simp]:
  "store (fd_update_peer cfg peer ok t n) = store n"
  "op_seq (fd_update_peer cfg peer ok t n) = op_seq n"
  by (simp_all add: fd_update_peer_def Let_def)

lemma fd_update_peer_log:
  "log (fd_update_peer cfg peer ok t n) =
     (if state_of (fd_update_peer cfg peer ok t n) peer \<noteq> state_of n peer
      then log n @ [fd_state_change_event cfg n peer (state_of n peer)
                      (state_of (fd_update_peer cfg peer ok t n) peer)]
      else log n)"
  by (simp add: fd_update_peer_def Let_def state_of_def last_ok_of_def log_event_def
        fd_state_change_event_def)

lemma fd_update_peer_twice:
  "state_of (fd_update_peer cfg peer ok t (fd_update_peer cfg peer ok t n)) peer
     = state_of (fd_update_peer cfg peer ok t n) peer"
  by (simp add: fd_update_peer_state_of fd_update_peer_last_ok_of)

lemma record_outcomes_Nil [simp]: "record_outcomes cfg [] n = n"
  by (simp add: record_outcomes_def)

lemma record_outcomes_Cons [simp]:
  "record_outcomes cfg ((peer, ok, t) # calls) n =
     record_outcomes cfg calls (fd_update_peer cfg peer ok t n)"
  by (simp add: record_outcomes_def)

section \<open>Failure detector: a failure after a success\<close>

text \<open>
  Claim C1. A peer has a recorded success when \<^verbatim>\<open>last_ok_ms_\<close> holds a time
  \<open>T\<close> for it other than 0, the value that stands for "never succeeded".
  For such a peer a failed outcome at time \<open>T + d\<close> records \<open>Dead\<close> if \<open>d\<close>,
  read as a signed 64-bit number, exceeds \<^verbatim>\<open>heartbeat_timeout_ms\<close>, and
  \<open>Suspected\<close> otherwise; \<^verbatim>\<open>last_ok_ms_\<close> is not changed.
\<close>

theorem fd_failed_outcome_after_success:
  assumes "last_ok_ms n peer = Some T" and "T \<noteq> 0"
  shows "state_of (fd_update_peer cfg peer False (T + d) n) peer =
           (if sint d > sint (heartbeat_timeout_ms cfg) then ''Dead'' else ''Suspected'')
         \<and> last_ok_ms (fd_update_peer cfg peer False (T + d) n) = last_ok_ms n"
proof -
  have "last_ok_of n peer = T"
    using assms(1) by (simp add: last_ok_of_def)
  with assms(2) show ?thesis
    by (simp add: fd_update_peer_state_of fd_update_peer_last_ok_ms)
qed

text \<open>
  The theorem at work: peer B succeeds at time 1; a failure 1000 ms later
  records \<open>Dead\<close>, a failure 500 ms later records \<open>Suspected\<close> (the default
  timeout is 500).
\<close>

theorem fd_failed_outcome_after_success_witness:
  "last_ok_ms (fd_update_peer NodeConfig_default ''B'' True 1 Node_init) ''B'' = Some 1
   \<and> (1 :: int64) \<noteq> 0
   \<and> state_of (fd_update_peer NodeConfig_default ''B'' False (1 + 1000)
                 (fd_update_peer NodeConfig_default ''B'' True 1 Node_init)) ''B'' = ''Dead''
   \<and> state_of (fd_update_peer NodeConfig_default ''B'' False (1 + 500)
                 (fd_update_peer NodeConfig_default ''B'' True 1 Node_init)) ''B'' = ''Suspected''"
proof -
  let ?n = "fd_update_peer NodeConfig_default ''B'' True 1 Node_init"
  have h1: "last_ok_ms ?n ''B'' = Some 1"
    by (simp add: fd_update_peer_last_ok_ms)
  have h2: "(1 :: int64) \<noteq> 0" by simp
  show ?thesis
    using h1 h2
      fd_failed_outcome_after_success [OF h1 h2, of NodeConfig_default 1000]
      fd_failed_outcome_after_success [OF h1 h2, of NodeConfig_default 500]
    by (simp add: NodeConfig_default_def)
qed

section \<open>Failure detector: a peer that never succeeded\<close>

lemma never_succeeded_run:
  assumes "last_ok_of n peer = 0"
    and "\<forall>(q, ok, t) \<in> set calls. q = peer \<longrightarrow> \<not> ok"
  shows "last_ok_of (record_outcomes cfg calls n) peer = 0
         \<and> state_of (record_outcomes cfg calls n) peer =
             (if peer \<in> fst ` set calls then ''Suspected'' else state_of n peer)"
  using assms
proof (induction calls arbitrary: n)
  case Nil
  then show ?case by simp
next
  case (Cons c calls)
  obtain q ok t where c: "c = (q, ok, t)" by (cases c)
  let ?n = "fd_update_peer cfg q ok t n"
  have fail: "q = peer \<Longrightarrow> \<not> ok" using Cons.prems(2) c by simp
  have l0: "last_ok_of ?n peer = 0"
    using Cons.prems(1) fail by (auto simp: fd_update_peer_last_ok_of)
  have rest: "\<forall>(q, ok, t) \<in> set calls. q = peer \<longrightarrow> \<not> ok"
    using Cons.prems(2) by simp
  have st: "state_of ?n peer = (if q = peer then ''Suspected'' else state_of n peer)"
    using Cons.prems(1) fail by (auto simp: fd_update_peer_state_of fd_update_peer_other)
  from Cons.IH [OF l0 rest] st show ?case
    by (auto simp: c)
qed

text \<open>
  Claim C2. Let a peer have no recorded success (its \<^verbatim>\<open>last_ok_ms_\<close> entry is
  absent or 0), and take any run of detector calls, at any times and mixed
  with calls for other peers, in which every call for this peer reports a
  failure. After every prefix of the run the peer still has no recorded
  success; once the prefix holds a call for the peer its state is
  \<open>Suspected\<close>; and the state is never \<open>Dead\<close> unless it was before the run.
\<close>

theorem fd_never_dead_without_success:
  assumes "last_ok_of n peer = 0"
    and "\<forall>(q, ok, t) \<in> set calls. q = peer \<longrightarrow> \<not> ok"
  shows "last_ok_of (record_outcomes cfg (take k calls) n) peer = 0
         \<and> (peer \<in> fst ` set (take k calls) \<longrightarrow>
              state_of (record_outcomes cfg (take k calls) n) peer = ''Suspected'')
         \<and> (state_of n peer \<noteq> ''Dead'' \<longrightarrow>
              state_of (record_outcomes cfg (take k calls) n) peer \<noteq> ''Dead'')"
proof -
  have "\<forall>(q, ok, t) \<in> set (take k calls). q = peer \<longrightarrow> \<not> ok"
    using assms(2) by (meson in_set_takeD)
  from never_succeeded_run [OF assms(1) this, of cfg] show ?thesis
    by simp
qed

text \<open>
  The theorem at work on a fresh node: two failures of B, far apart in time,
  with a success of C in between, leave B \<open>Suspected\<close>.
\<close>

theorem fd_never_dead_without_success_witness:
  "last_ok_of Node_init ''B'' = 0
   \<and> state_of Node_init ''B'' \<noteq> ''Dead''
   \<and> ''B'' \<in> fst ` set [(''B'', False, 1000), (''C'', True, 5), (''B'', False, 99999 :: int64)]
   \<and> state_of (record_outcomes NodeConfig_default
                 [(''B'', False, 1000), (''C'', True, 5), (''B'', False, 99999)] Node_init) ''B''
       = ''Suspected''"
proof -
  let ?calls = "[(''B'', False, 1000), (''C'', True, 5), (''B'', False, 99999 :: int64)]"
  have h1: "last_ok_of Node_init ''B'' = 0"
    by (simp add: last_ok_of_def Node_init_def)
  have h2: "\<forall>(q, ok, t) \<in> set ?calls. q = ''B'' \<longrightarrow> \<not> ok"
    by simp
  have h3: "state_of Node_init ''B'' \<noteq> ''Dead''"
    by (simp add: state_of_def Node_init_def)
  have "take 3 ?calls = ?calls" by simp
  with fd_never_dead_without_success [OF h1 h2, of NodeConfig_default 3] h1 h3
  show ?thesis
    by simp
qed

section \<open>Failure detector: state-change events\<close>

text \<open>
  Claim C3. The next state \<^verbatim>\<open>fd_update_peer\<close> computes is \<open>Alive\<close> on a
  success; on a failure it is \<open>Suspected\<close> when the peer has no recorded
  success or the failure comes within \<^verbatim>\<open>heartbeat_timeout_ms\<close> of the last
  one, and \<open>Dead\<close> when it comes later. The call records that state, and it
  appends one \<^verbatim>\<open>fd_state_change\<close> event, carrying the peer id, the previous and
  the new state, if that state differs from the state recorded before the
  call, and appends nothing otherwise. The previous state of a peer without
  an entry is \<open>Alive\<close>. A further call that computes the state already
  recorded therefore appends nothing: so it is for the same outcome reported
  again, and for a success following a success at any two times.
\<close>

theorem state_change_logged_iff:
  "(let next = (if ok then ''Alive''
                else if last_ok_of n peer = 0 then ''Suspected''
                else if sint (t - last_ok_of n peer) > sint (heartbeat_timeout_ms cfg)
                then ''Dead'' else ''Suspected'')
    in state_of (fd_update_peer cfg peer ok t n) peer = next
       \<and> log (fd_update_peer cfg peer ok t n) =
           (if next \<noteq> state_of n peer
            then log n @ [fd_state_change_event cfg n peer (state_of n peer) next]
            else log n))
   \<and> (fd_state n peer = None \<longrightarrow> state_of n peer = ''Alive'')
   \<and> log (fd_update_peer cfg peer ok t (fd_update_peer cfg peer ok t n))
       = log (fd_update_peer cfg peer ok t n)
   \<and> log (fd_update_peer cfg peer True t' (fd_update_peer cfg peer True t n))
       = log (fd_update_peer cfg peer True t n)"
proof -
  let ?n = "fd_update_peer cfg peer ok t n"
  let ?m = "fd_update_peer cfg peer True t n"
  have main: "(let next = (if ok then ''Alive''
                else if last_ok_of n peer = 0 then ''Suspected''
                else if sint (t - last_ok_of n peer) > sint (heartbeat_timeout_ms cfg)
                then ''Dead'' else ''Suspected'')
    in state_of (fd_update_peer cfg peer ok t n) peer = next
       \<and> log (fd_update_peer cfg peer ok t n) =
           (if next \<noteq> state_of n peer
            then log n @ [fd_state_change_event cfg n peer (state_of n peer) next]
            else log n))"
    by (simp add: Let_def fd_update_peer_log fd_update_peer_state_of)
  have same: "log (fd_update_peer cfg peer ok t ?n) = log ?n"
    by (subst fd_update_peer_log) (simp add: fd_update_peer_twice)
  have succ: "log (fd_update_peer cfg peer True t' ?m) = log ?m"
    by (subst fd_update_peer_log) (simp add: fd_update_peer_state_of)
  have dflt: "fd_state n peer = None \<longrightarrow> state_of n peer = ''Alive''"
    by (simp add: state_of_def)
  show ?thesis
    by (rule conjI [OF main conjI [OF dflt conjI [OF same succ]]])
qed

text \<open>
  On a fresh node a failure of B at 1000, a success at 2000 and a failure at
  3000 log three changes: \<open>Alive\<close> to \<open>Suspected\<close>, \<open>Suspected\<close> to \<open>Alive\<close>,
  \<open>Alive\<close> to \<open>Dead\<close>. The first failure reported again logs nothing.
\<close>

theorem state_change_logged_iff_witness:
  "fd_state Node_init ''B'' = None
   \<and> log (fd_update_peer NodeConfig_default ''B'' False 3000
        (fd_update_peer NodeConfig_default ''B'' True 2000
          (fd_update_peer NodeConfig_default ''B'' False 1000 Node_init))) =
       [[(''node_id'', JStr []), (''type'', JStr ''fd_state_change''), (''seq'', JNum 0),
         (''peer_id'', JStr ''B''), (''from'', JStr ''Alive''), (''to'', JStr ''Suspected'')],
        [(''node_id'', JStr []), (''type'', JStr ''fd_state_change''), (''seq'', JNum 0),
         (''peer_id'', JStr ''B''), (''from'', JStr ''Suspected''), (''to'', JStr ''Alive'')],
        [(''node_id'', JStr []), (''type'', JStr ''fd_state_change''), (''seq'', JNum 0),
         (''peer_id'', JStr ''B''), (''from'', JStr ''Alive''), (''to'', JStr ''Dead'')]]
   \<and> log (fd_update_peer NodeConfig_default ''B'' False 1000
            (fd_update_peer NodeConfig_default ''B'' False 1000 Node_init)) =
       log (fd_update_peer NodeConfig_default ''B'' False 1000 Node_init)"
proof -
  let ?c = NodeConfig_default
  let ?n1 = "fd_update_peer ?c ''B'' False 1000 Node_init"
  let ?n2 = "fd_update_peer ?c ''B'' True 2000 ?n1"
  have s0: "state_of Node_init ''B'' = ''Alive''" "last_ok_of Node_init ''B'' = 0"
    by (simp_all add: state_of_def last_ok_of_def Node_init_def)
  have s1: "state_of ?n1 ''B'' = ''Suspected''" "last_ok_of ?n1 ''B'' = 0"
    by (simp_all add: fd_update_peer_state_of fd_update_peer_last_ok_of s0)
  have s2: "state_of ?n2 ''B'' = ''Alive''" "last_ok_of ?n2 ''B'' = 2000"
    by (simp_all add: fd_update_peer_state_of fd_update_peer_last_ok_of)
  have l0: "log Node_init = []" "op_seq Node_init = 0" "fd_state Node_init ''B'' = None"
    by (simp_all add: Node_init_def)
  show ?thesis
    using state_change_logged_iff
        [where cfg = ?c and peer = "''B''" and ok = False and t = 1000 and n = Node_init
           and t' = 0]
      state_change_logged_iff
        [where cfg = ?c and peer = "''B''" and ok = True and t = 2000 and n = ?n1 and t' = 0]
      state_change_logged_iff
        [where cfg = ?c and peer = "''B''" and ok = False and t = 3000 and n = ?n2 and t' = 0]
    by (simp add: Let_def s0 s1 s2 l0 fd_state_change_event_def NodeConfig_default_fields)
qed

section \<open>Failure detector: from Alive to Dead\<close>

text \<open>
  Claim C4, as the code has it. A call of \<^verbatim>\<open>fd_update_peer\<close> for a peer whose
  state is \<open>Alive\<close> records \<open>Dead\<close> exactly when it reports a failure, the peer
  has a recorded success (a last success time other than 0), and the failure
  comes more than \<^verbatim>\<open>heartbeat_timeout_ms\<close> after that success. It records
  \<open>Suspected\<close> exactly when it reports a failure and the peer has no recorded
  success or the failure comes within the timeout; so for a peer with a
  recorded success \<open>Suspected\<close> comes in between only when a failure is
  reported within the timeout.
\<close>

theorem fd_alive_to_dead_iff:
  assumes "state_of n peer = ''Alive''"
  shows "(state_of (fd_update_peer cfg peer ok t n) peer = ''Dead'' \<longleftrightarrow>
            \<not> ok \<and> last_ok_of n peer \<noteq> 0
            \<and> sint (t - last_ok_of n peer) > sint (heartbeat_timeout_ms cfg))
         \<and> (state_of (fd_update_peer cfg peer ok t n) peer = ''Suspected'' \<longleftrightarrow>
            \<not> ok \<and> (last_ok_of n peer = 0
                     \<or> sint (t - last_ok_of n peer) \<le> sint (heartbeat_timeout_ms cfg)))"
  by (auto simp: fd_update_peer_state_of)

text \<open>
  After a success of B at time 1, a failure at 1001 takes B from \<open>Alive\<close> to
  \<open>Dead\<close>, a failure at 400 does not.
\<close>

theorem fd_alive_to_dead_iff_witness:
  "state_of (fd_update_peer NodeConfig_default ''B'' True 1 Node_init) ''B'' = ''Alive''
   \<and> state_of (fd_update_peer NodeConfig_default ''B'' False 1001
                 (fd_update_peer NodeConfig_default ''B'' True 1 Node_init)) ''B'' = ''Dead''
   \<and> state_of (fd_update_peer NodeConfig_default ''B'' False 400
                 (fd_update_peer NodeConfig_default ''B'' True 1 Node_init)) ''B'' \<noteq> ''Dead''"
proof -
  let ?n = "fd_update_peer NodeConfig_default ''B'' True 1 Node_init"
  have h: "state_of ?n ''B'' = ''Alive''"
    by (simp add: fd_update_peer_state_of)
  have l: "last_ok_of ?n ''B'' = 1"
    by (simp add: fd_update_peer_last_ok_of)
  show ?thesis
    using h fd_alive_to_dead_iff [OF h, of NodeConfig_default False 1001]
      fd_alive_to_dead_iff [OF h, of NodeConfig_default False 400]
    by (simp add: l NodeConfig_default_fields)
qed

text \<open>
  As worded, the claim fails. Peer B has a recorded success at time 1 and the
  recorded state \<open>Alive\<close>; the next outcome is a failure at time 1001, more
  than the timeout of 500 later. The call records \<open>Dead\<close> at once, and the
  only event logged in the whole run is the change from \<open>Alive\<close> to \<open>Dead\<close>:
  \<open>Suspected\<close> was never recorded.
\<close>

theorem fd_alive_to_dead_counterexample:
  "last_ok_ms (fd_update_peer NodeConfig_default ''B'' True 1 Node_init) ''B'' = Some 1
   \<and> fd_state (fd_update_peer NodeConfig_default ''B'' True 1 Node_init) ''B'' = Some ''Alive''
   \<and> fd_state (fd_update_peer NodeConfig_default ''B'' False 1001
                 (fd_update_peer NodeConfig_default ''B'' True 1 Node_init)) ''B'' = Some ''Dead''
   \<and> log (fd_update_peer NodeConfig_default ''B'' False 1001
            (fd_update_peer NodeConfig_default ''B'' True 1 Node_init)) =
       [[(''node_id'', JStr []), (''type'', JStr ''fd_state_change''), (''seq'', JNum 0),
         (''peer_id'', JStr ''B''), (''from'', JStr ''Alive''), (''to'', JStr ''Dead'')]]"
  by (simp add: fd_update_peer_def Let_def state_of_def last_ok_of_def log_event_def
        NodeConfig_default_def Node_init_def)

section \<open>Failure detector: the leader-dead query\<close>

text \<open>
  Claim C9. \<^verbatim>\<open>leader_is_dead(now)\<close> answers false when the peer "leader" has
  no recorded success (no entry, or the entry 0); otherwise it answers true
  exactly when \<open>now\<close> minus the last success time exceeds
  \<^verbatim>\<open>heartbeat_timeout_ms\<close>. The node, its log included, is returned as it was.
\<close>

theorem leader_is_dead_query:
  "(case last_ok_ms n ''leader'' of
      None \<Rightarrow> leader_is_dead cfg now n = (False, n)
    | Some T \<Rightarrow>
        leader_is_dead cfg now n =
          (T \<noteq> 0 \<and> sint (now - T) > sint (heartbeat_timeout_ms cfg), n))"
  by (simp add: leader_is_dead_def Let_def last_ok_of_def split: option.splits)

text \<open>
  A follower that never reached its leader does not call it dead; one that
  reached it at time 1 calls it dead at 1001 and not at 400.
\<close>

theorem leader_is_dead_query_witness:
  "leader_is_dead NodeConfig_default 1000 Node_init = (False, Node_init)
   \<and> fst (leader_is_dead NodeConfig_default 1001
            (fd_update_peer NodeConfig_default ''leader'' True 1 Node_init))
   \<and> \<not> fst (leader_is_dead NodeConfig_default 400
              (fd_update_peer NodeConfig_default ''leader'' True 1 Node_init))"
proof -
  let ?n = "fd_update_peer NodeConfig_default ''leader'' True 1 Node_init"
  have a: "last_ok_ms Node_init ''leader'' = None"
    by (simp add: Node_init_def)
  have b: "last_ok_ms ?n ''leader'' = Some 1"
    by (simp add: fd_update_peer_last_ok_ms)
  show ?thesis
    using leader_is_dead_query [where n = Node_init and cfg = NodeConfig_default and now = 1000]
      leader_is_dead_query [where n = ?n and cfg = NodeConfig_default and now = 1001]
      leader_is_dead_query [where n = ?n and cfg = NodeConfig_default and now = 400]
    by (simp add: a b NodeConfig_default_fields)
qed

section \<open>Request handlers: rejected requests\<close>

lemma put_handler_follower_any:
  "\<not> is_leader cfg \<Longrightarrow>
   store (snd (snd (put_handler cfg req n))) = store n \<and> fst (snd (put_handler cfg req n)) = []"
  by (simp add: put_handler_def Let_def split: sum.splits)

text \<open>
  Claim C5, as the code has it. On a node that is not the leader, a PUT
  request whose body is an object with a string \<open>key\<close> and a string \<open>value\<close>
  is answered with status 409 and the error \<open>not_leader\<close>, and the rejection
  is logged. Whatever a PUT request holds, such a node leaves the store as it
  was and starts no replication task.
\<close>

theorem put_on_follower_rejected:
  assumes "\<not> is_leader cfg"
    and "req_body req = JObj kvs"
    and "map_of kvs ''key'' = Some (JStr k)"
    and "map_of kvs ''value'' = Some (JStr v)"
  shows "put_handler cfg req n =
           (Returned \<lparr>status = 409, content = JObj [(''error'', JStr ''not_leader'')]\<rparr>,
            [],
            log_event cfg ''put_reject_not_leader'' (request_rid req) k (JObj [])
              (n\<lparr>op_seq := op_seq n + 1\<rparr>))
         \<and> store (snd (snd (put_handler cfg req n))) = store n
         \<and> fst (snd (put_handler cfg req n)) = []
         \<and> store (snd (snd (put_handler cfg req0 n0))) = store n0
         \<and> fst (snd (put_handler cfg req0 n0)) = []"
proof -
  have a: "put_handler cfg req n =
           (Returned \<lparr>status = 409, content = JObj [(''error'', JStr ''not_leader'')]\<rparr>,
            [],
            log_event cfg ''put_reject_not_leader'' (request_rid req) k (JObj [])
              (n\<lparr>op_seq := op_seq n + 1\<rparr>))"
    using assms
    by (simp add: put_handler_def Let_def is_discarded_def contains_JObj get_string_JObj)
  from a put_handler_follower_any [OF assms(1), of req n]
    put_handler_follower_any [OF assms(1), of req0 n0]
  show ?thesis by blast
qed

text \<open>A follower with the default configuration rejects PUT x = 1.\<close>

theorem put_on_follower_rejected_witness:
  "\<not> is_leader NodeConfig_default
   \<and> fst (put_handler NodeConfig_default
            \<lparr>rid_param = Some ''r1'', made_rid = ''m1'',
             req_body = JObj [(''key'', JStr ''x''), (''value'', JStr ''1'')]\<rparr> Node_init) =
       Returned \<lparr>status = 409, content = JObj [(''error'', JStr ''not_leader'')]\<rparr>
   \<and> fst (snd (put_handler NodeConfig_default
            \<lparr>rid_param = Some ''r1'', made_rid = ''m1'',
             req_body = JObj [(''key'', JStr ''x''), (''value'', JStr ''1'')]\<rparr> Node_init)) = []
   \<and> store (snd (snd (put_handler NodeConfig_default
            \<lparr>rid_param = Some ''r1'', made_rid = ''m1'',
             req_body = JObj [(''key'', JStr ''x''), (''value'', JStr ''1'')]\<rparr> Node_init))) ''x''
       = None"
proof -
  let ?req = "\<lparr>rid_param = Some ''r1'', made_rid = ''m1'',
               req_body = JObj [(''key'', JStr ''x''), (''value'', JStr ''1'')]\<rparr>"
  have h1: "\<not> is_leader NodeConfig_default"
    by (simp add: NodeConfig_default_fields)
  have h2: "req_body ?req = JObj [(''key'', JStr ''x''), (''value'', JStr ''1'')]"
    by simp
  have h3: "map_of [(''key'', JStr ''x''), (''value'', JStr ''1'')] ''key'' = Some (JStr ''x'')"
    by simp
  have h4: "map_of [(''key'', JStr ''x''), (''value'', JStr ''1'')] ''value'' = Some (JStr ''1'')"
    by simp
  show ?thesis
    using h1 put_on_follower_rejected
        [OF h1 h2 h3 h4, where n = Node_init and ?req0.0 = ?req and ?n0.0 = Node_init]
    by (simp add: Node_init_fields)
qed

text \<open>
  As worded, the claim covers every request that contains \<open>key\<close> and
  \<open>value\<close>. With the number 5 as key, \<^verbatim>\<open>get<std::string>()\<close> throws before
  the handler looks at \<^verbatim>\<open>is_leader\<close>: a follower gives no \<open>not_leader\<close> answer
  and logs nothing.
\<close>

theorem put_nonstring_key_counterexample:
  "\<not> is_leader NodeConfig_default
   \<and> contains (JObj [(''key'', JNum 5), (''value'', JStr ''1'')]) ''key''
   \<and> contains (JObj [(''key'', JNum 5), (''value'', JStr ''1'')]) ''value''
   \<and> put_handler NodeConfig_default
        \<lparr>rid_param = Some ''r1'', made_rid = ''m1'',
         req_body = JObj [(''key'', JNum 5), (''value'', JStr ''1'')]\<rparr> Node_init =
       (Threw type_error_302, [], Node_init\<lparr>op_seq := 1\<rparr>)"
  by (simp add: put_handler_def Let_def contains_def is_discarded_def get_string_def
        NodeConfig_default_fields Node_init_fields)

text \<open>
  Claim C6, as the code has it. A PUT whose body does not parse or lacks
  \<open>key\<close> or \<open>value\<close>, and a GET whose body does not parse or lacks \<open>key\<close>, is
  answered with status 400 and the error \<open>bad_json\<close>, and one event
  (\<open>put_badreq\<close>, \<open>get_badreq\<close>) is logged. The store and the two
  failure-detector tables are left as they were and no replication task is
  started; the request counter \<^verbatim>\<open>op_seq_\<close> has been incremented.
\<close>

theorem malformed_request_rejected:
  "(is_discarded (req_body req) \<or> \<not> contains (req_body req) ''key''
      \<or> \<not> contains (req_body req) ''value'' \<longrightarrow>
      put_handler cfg req n =
        (Returned bad_json, [],
         log_event cfg ''put_badreq'' (request_rid req) [] (JObj [])
           (n\<lparr>op_seq := op_seq n + 1\<rparr>))
      \<and> store (snd (snd (put_handler cfg req n))) = store n
      \<and> last_ok_ms (snd (snd (put_handler cfg req n))) = last_ok_ms n
      \<and> fd_state (snd (snd (put_handler cfg req n))) = fd_state n
      \<and> op_seq (snd (snd (put_handler cfg req n))) = op_seq n + 1
      \<and> (\<exists>ev. log (snd (snd (put_handler cfg req n))) = log n @ [ev]
               \<and> event_field ev ''type'' = Some (JStr ''put_badreq'')))
   \<and> (is_discarded (req_body req) \<or> \<not> contains (req_body req) ''key'' \<longrightarrow>
      get_handler cfg req n =
        (Returned bad_json,
         log_event cfg ''get_badreq'' (request_rid req) [] (JObj [])
           (n\<lparr>op_seq := op_seq n + 1\<rparr>))
      \<and> store (snd (get_handler cfg req n)) = store n
      \<and> last_ok_ms (snd (get_handler cfg req n)) = last_ok_ms n
      \<and> fd_state (snd (get_handler cfg req n)) = fd_state n
      \<and> op_seq (snd (get_handler cfg req n)) = op_seq n + 1
      \<and> (\<exists>ev. log (snd (get_handler cfg req n)) = log n @ [ev]
               \<and> event_field ev ''type'' = Some (JStr ''get_badreq'')))"
proof (intro conjI impI)
  assume bad: "is_discarded (req_body req) \<or> \<not> contains (req_body req) ''key''
      \<or> \<not> contains (req_body req) ''value''"
  then show p: "put_handler cfg req n =
        (Returned bad_json, [],
         log_event cfg ''put_badreq'' (request_rid req) [] (JObj [])
           (n\<lparr>op_seq := op_seq n + 1\<rparr>))"
    by (auto simp: put_handler_def Let_def)
  show "store (snd (snd (put_handler cfg req n))) = store n"
    "last_ok_ms (snd (snd (put_handler cfg req n))) = last_ok_ms n"
    "fd_state (snd (snd (put_handler cfg req n))) = fd_state n"
    "op_seq (snd (snd (put_handler cfg req n))) = op_seq n + 1"
    by (simp_all add: p)
  show "\<exists>ev. log (snd (snd (put_handler cfg req n))) = log n @ [ev]
               \<and> event_field ev ''type'' = Some (JStr ''put_badreq'')"
    using log_event_type [of cfg "''put_badreq''" "request_rid req" "[]"
        "n\<lparr>op_seq := op_seq n + 1\<rparr>"]
    by (simp add: p)
next
  assume bad: "is_discarded (req_body req) \<or> \<not> contains (req_body req) ''key''"
  then show g: "get_handler cfg req n =
        (Returned bad_json,
         log_event cfg ''get_badreq'' (request_rid req) [] (JObj [])
           (n\<lparr>op_seq := op_seq n + 1\<rparr>))"
    by (auto simp: get_handler_def Let_def)
  show "store (snd (get_handler cfg req n)) = store n"
    "last_ok_ms (snd (get_handler cfg req n)) = last_ok_ms n"
    "fd_state (snd (get_handler cfg req n)) = fd_state n"
    "op_seq (snd (get_handler cfg req n)) = op_seq n + 1"
    by (simp_all add: g)
  show "\<exists>ev. log (snd (get_handler cfg req n)) = log n @ [ev]
               \<and> event_field ev ''type'' = Some (JStr ''get_badreq'')"
    using log_event_type [of cfg "''get_badreq''" "request_rid req" "[]"
        "n\<lparr>op_seq := op_seq n + 1\<rparr>"]
    by (simp add: g)
qed

text \<open>
  A body that does not parse, and a PUT body without \<open>value\<close>: both get the
  answer 400 and leave the store empty.
\<close>

theorem malformed_request_rejected_witness:
  "is_discarded (req_body \<lparr>rid_param = None, made_rid = ''m1'', req_body = Discarded\<rparr>)
   \<and> fst (put_handler NodeConfig_default
            \<lparr>rid_param = None, made_rid = ''m1'', req_body = Discarded\<rparr> Node_init)
       = Returned bad_json
   \<and> fst (get_handler NodeConfig_default
            \<lparr>rid_param = None, made_rid = ''m1'', req_body = Discarded\<rparr> Node_init)
       = Returned bad_json
   \<and> store (snd (snd (put_handler NodeConfig_default
            \<lparr>rid_param = None, made_rid = ''m1'', req_body = Discarded\<rparr> Node_init)))
       = Map.empty
   \<and> store (snd (get_handler NodeConfig_default
            \<lparr>rid_param = None, made_rid = ''m1'', req_body = Discarded\<rparr> Node_init))
       = Map.empty"
proof -
  let ?req = "\<lparr>rid_param = None, made_rid = ''m1'', req_body = Discarded\<rparr>"
  have h: "is_discarded (req_body ?req)"
    by (simp add: is_discarded_def)
  show ?thesis
    using h malformed_request_rejected
      [where req = ?req and cfg = NodeConfig_default and n = Node_init]
    by (simp add: Node_init_fields)
qed

text \<open>
  As worded, the claim says that no node state is mutated. Both handlers run
  \<^verbatim>\<open>op_seq_++\<close> before they look at the body: on a fresh node, whose counter
  is 0, a body that does not parse leaves the counter at 1.
\<close>

theorem malformed_request_counterexample:
  "is_discarded (req_body \<lparr>rid_param = None, made_rid = ''m1'', req_body = Discarded\<rparr>)
   \<and> op_seq Node_init = 0
   \<and> op_seq (snd (snd (put_handler NodeConfig_default
                \<lparr>rid_param = None, made_rid = ''m1'', req_body = Discarded\<rparr> Node_init))) = 1
   \<and> op_seq (snd (get_handler NodeConfig_default
                \<lparr>rid_param = None, made_rid = ''m1'', req_body = Discarded\<rparr> Node_init)) = 1"
  by (simp add: put_handler_def get_handler_def Let_def is_discarded_def Node_init_def)

section \<open>Read your writes on the leader\<close>

lemma replicate_task_done_store [simp]:
  "store (replicate_task_done cfg task res t n) = store n"
  by (simp add: replicate_task_done_def Let_def)

lemma replication_results_store [simp]:
  "store (replication_results cfg rs n) = store n"
  unfolding replication_results_def
  by (induction rs arbitrary: n) (simp_all add: split_def)

lemma put_handler_leader:
  assumes "is_leader cfg"
    and "req_body req = JObj kvs"
    and "map_of kvs ''key'' = Some (JStr k)"
    and "map_of kvs ''value'' = Some (JStr v)"
  shows "put_handler cfg req n =
           (Returned \<lparr>status = 200,
                      content = JObj [(''ok'', JBool True), (''rid'', JStr (request_rid req))]\<rparr>,
            replicate_async cfg (request_rid req) ''PUT'' k v,
            log_event cfg ''put_ok'' (request_rid req) k
              (JObj [(''value_len'', JNum (int (length v)))])
              (n\<lparr>op_seq := op_seq n + 1, store := (store n)(k \<mapsto> v)\<rparr>))"
  using assms
  by (simp add: put_handler_def Let_def is_discarded_def contains_JObj get_string_JObj
        Store_put_def)

lemma get_handler_found:
  assumes "req_body req = JObj kvs"
    and "map_of kvs ''key'' = Some (JStr k)"
    and "store n k = Some v"
  shows "fst (get_handler cfg req n) =
           Returned \<lparr>status = 200,
                     content = JObj [(''ok'', JBool True), (''rid'', JStr (request_rid req)),
                                     (''found'', JBool True), (''value'', JStr v)]\<rparr>"
  using assms
  by (simp add: get_handler_def Let_def is_discarded_def contains_JObj get_string_JObj
        Store_get_def)

text \<open>
  Claim C7. On the leader, a PUT whose body carries the strings \<open>key = k\<close> and
  \<open>value = v\<close> is accepted with status 200 and stores \<open>v\<close> under \<open>k\<close>. A GET
  for \<open>k\<close> that follows, after any number of replication tasks have finished
  with any result, answers status 200 with \<open>found\<close> true and the value \<open>v\<close>.
\<close>

theorem read_your_writes_on_leader:
  assumes "is_leader cfg"
    and "req_body req = JObj kvs"
    and "map_of kvs ''key'' = Some (JStr k)"
    and "map_of kvs ''value'' = Some (JStr v)"
    and "req_body req' = JObj kvs'"
    and "map_of kvs' ''key'' = Some (JStr k)"
  shows "fst (put_handler cfg req n) =
           Returned \<lparr>status = 200,
                     content = JObj [(''ok'', JBool True), (''rid'', JStr (request_rid req))]\<rparr>
         \<and> store (snd (snd (put_handler cfg req n))) k = Some v
         \<and> fst (get_handler cfg req'
                  (replication_results cfg rs (snd (snd (put_handler cfg req n))))) =
             Returned \<lparr>status = 200,
                       content = JObj [(''ok'', JBool True), (''rid'', JStr (request_rid req')),
                                       (''found'', JBool True), (''value'', JStr v)]\<rparr>"
proof -
  note p = put_handler_leader [OF assms(1-4), of n]
  have s: "store (snd (snd (put_handler cfg req n))) k = Some v"
    by (simp add: p)
  have "store (replication_results cfg rs (snd (snd (put_handler cfg req n)))) k = Some v"
    using s by simp
  from get_handler_found [OF assms(5,6) this] s show ?thesis
    by (simp add: p)
qed

text \<open>
  A leader with followers F1 and F2 accepts PUT x = 1; the push to F1
  succeeds, the push to F2 gets no response; GET x then answers 1.
\<close>

theorem read_your_writes_on_leader_witness:
  "is_leader (NodeConfig_default\<lparr>is_leader := True,
       peers := [\<lparr>peer_id = ''F1'', peer_host = ''127.0.0.1'', peer_port = 8002\<rparr>,
                 \<lparr>peer_id = ''F2'', peer_host = ''127.0.0.1'', peer_port = 8003\<rparr>]\<rparr>)
   \<and> fst (get_handler
        (NodeConfig_default\<lparr>is_leader := True,
           peers := [\<lparr>peer_id = ''F1'', peer_host = ''127.0.0.1'', peer_port = 8002\<rparr>,
                     \<lparr>peer_id = ''F2'', peer_host = ''127.0.0.1'', peer_port = 8003\<rparr>]\<rparr>)
        \<lparr>rid_param = Some ''r2'', made_rid = ''m2'', req_body = JObj [(''key'', JStr ''x'')]\<rparr>
        (replication_results
          (NodeConfig_default\<lparr>is_leader := True,
             peers := [\<lparr>peer_id = ''F1'', peer_host = ''127.0.0.1'', peer_port = 8002\<rparr>,
                       \<lparr>peer_id = ''F2'', peer_host = ''127.0.0.1'', peer_port = 8003\<rparr>]\<rparr>)
          [(\<lparr>task_peer = \<lparr>peer_id = ''F1'', peer_host = ''127.0.0.1'', peer_port = 8002\<rparr>,
             task_body = JObj [(''rid'', JStr ''r1''), (''op'', JStr ''PUT''),
                               (''key'', JStr ''x''), (''value'', JStr ''1'')],
             task_rid = ''r1'', task_key = ''x''\<rparr>, Some 200, 1010),
           (\<lparr>task_peer = \<lparr>peer_id = ''F2'', peer_host = ''127.0.0.1'', peer_port = 8003\<rparr>,
             task_body = JObj [(''rid'', JStr ''r1''), (''op'', JStr ''PUT''),
                               (''key'', JStr ''x''), (''value'', JStr ''1'')],
             task_rid = ''r1'', task_key = ''x''\<rparr>, None, 1700)]
          (snd (snd (put_handler
            (NodeConfig_default\<lparr>is_leader := True,
               peers := [\<lparr>peer_id = ''F1'', peer_host = ''127.0.0.1'', peer_port = 8002\<rparr>,
                         \<lparr>peer_id = ''F2'', peer_host = ''127.0.0.1'', peer_port = 8003\<rparr>]\<rparr>)
            \<lparr>rid_param = Some ''r1'', made_rid = ''m1'',
             req_body = JObj [(''key'', JStr ''x''), (''value'', JStr ''1'')]\<rparr>
            Node_init))))) =
       Returned \<lparr>status = 200,
                 content = JObj [(''ok'', JBool True), (''rid'', JStr ''r2''),
                                 (''found'', JBool True), (''value'', JStr ''1'')]\<rparr>"
proof -
  let ?cfg = "NodeConfig_default\<lparr>is_leader := True,
       peers := [\<lparr>peer_id = ''F1'', peer_host = ''127.0.0.1'', peer_port = 8002\<rparr>,
                 \<lparr>peer_id = ''F2'', peer_host = ''127.0.0.1'', peer_port = 8003\<rparr>]\<rparr>"
  let ?put = "\<lparr>rid_param = Some ''r1'', made_rid = ''m1'',
               req_body = JObj [(''key'', JStr ''x''), (''value'', JStr ''1'')]\<rparr>"
  let ?get = "\<lparr>rid_param = Some ''r2'', made_rid = ''m2'',
               req_body = JObj [(''key'', JStr ''x'')]\<rparr>"
  have h1: "is_leader ?cfg" by simp
  have h2: "req_body ?put = JObj [(''key'', JStr ''x''), (''value'', JStr ''1'')]" by simp
  have h3: "map_of [(''key'', JStr ''x''), (''value'', JStr ''1'')] ''key'' = Some (JStr ''x'')"
    by simp
  have h4: "map_of [(''key'', JStr ''x''), (''value'', JStr ''1'')] ''value'' = Some (JStr ''1'')"
    by simp
  have h5: "req_body ?get = JObj [(''key'', JStr ''x'')]" by simp
  have h6: "map_of [(''key'', JStr ''x'')] ''key'' = Some (JStr ''x'')" by simp
  have r: "request_rid ?get = ''r2''" by (simp add: request_rid_def)
  show ?thesis
    using h1 read_your_writes_on_leader [OF h1 h2 h3 h4 h5 h6] r
    by simp
qed

section \<open>Applying replicated operations\<close>

lemma value_or_JObj:
  "map_of kvs k = None \<Longrightarrow> value_or (JObj kvs) k d = Inr d"
  "map_of kvs k = Some (JStr s) \<Longrightarrow> value_or (JObj kvs) k d = Inr s"
  by (simp_all add: value_or_def)

lemma replicate_handler_wf:
  assumes "req_body req = JObj kvs"
    and "map_of kvs ''op'' = Some (JStr opn)"
    and "map_of kvs ''key'' = Some (JStr k)"
    and "map_of kvs ''rid'' = Some (JStr r)"
    and "value_or (JObj kvs) ''value'' [] = Inr v"
  shows "replicate_handler cfg req n =
           (Returned \<lparr>status = 200, content = JObj [(''ok'', JBool True)]\<rparr>,
            log_event cfg ''replicate_apply'' r k (JObj [(''op'', JStr opn)])
              (if opn = ''PUT'' then n\<lparr>store := (store n)(k \<mapsto> v)\<rparr>
               else if opn = ''DEL'' then n\<lparr>store := (store n)(k := None)\<rparr>
               else n))"
  using assms
  by (simp add: replicate_handler_def Let_def is_discarded_def contains_JObj get_string_JObj
        Store_put_def Store_del_def)

lemma replicate_handler_store_cong:
  "store m = store m' \<Longrightarrow>
   store (snd (replicate_handler cfg req m)) = store (snd (replicate_handler cfg req m'))"
  by (simp add: replicate_handler_def Let_def Store_put_def Store_del_def
        split: sum.splits)

lemma replicate_handler_store_idem:
  "store (snd (replicate_handler cfg req (snd (replicate_handler cfg req n)))) =
   store (snd (replicate_handler cfg req n))"
  by (simp add: replicate_handler_def Let_def Store_put_def Store_del_def
        split: sum.splits)

lemma replay_store:
  "store (replay cfg req (Suc j) n) = store (snd (replicate_handler cfg req n))"
proof (induction j)
  case 0
  show ?case by (simp add: replay_def)
next
  case (Suc j)
  have "store (replay cfg req (Suc (Suc j)) n) =
        store (snd (replicate_handler cfg req (replay cfg req (Suc j) n)))"
    by (simp add: replay_def)
  also have "\<dots> = store (snd (replicate_handler cfg req (snd (replicate_handler cfg req n))))"
    by (rule replicate_handler_store_cong) (rule Suc.IH)
  also have "\<dots> = store (snd (replicate_handler cfg req n))"
    by (rule replicate_handler_store_idem)
  finally show ?case .
qed

text \<open>
  Claim C8. Take a replicate request with the strings \<open>op\<close>, \<open>key\<close> and
  \<open>rid\<close>, where \<open>op\<close> is PUT or DEL and \<open>value\<close> is a string or absent (then
  the empty string is used). Delivered once it leaves the store with the key
  bound to the value (PUT) or unbound (DEL); delivered any greater number of
  times in a row it leaves the same store.
\<close>

theorem replicated_apply_idempotent:
  assumes "req_body req = JObj kvs"
    and "map_of kvs ''op'' = Some (JStr opn)"
    and "opn = ''PUT'' \<or> opn = ''DEL''"
    and "map_of kvs ''key'' = Some (JStr k)"
    and "map_of kvs ''rid'' = Some (JStr r)"
    and "value_or (JObj kvs) ''value'' [] = Inr v"
  shows "store (replay cfg req (Suc j) n) = store (replay cfg req 1 n)
         \<and> store (replay cfg req 1 n) =
             (if opn = ''PUT'' then (store n)(k \<mapsto> v) else (store n)(k := None))"
proof -
  have one: "replay cfg req 1 n = snd (replicate_handler cfg req n)"
    by (simp add: replay_def)
  have "store (snd (replicate_handler cfg req n)) =
          (if opn = ''PUT'' then (store n)(k \<mapsto> v) else (store n)(k := None))"
    using assms(3) by (auto simp: replicate_handler_wf [OF assms(1,2,4,5,6)])
  then show ?thesis
    by (simp add: one replay_store)
qed

text \<open>
  PUT x = 1 delivered three times to a fresh follower binds x to 1, as one
  delivery does; DEL x delivered three times leaves x unbound.
\<close>

theorem replicated_apply_idempotent_witness:
  "store (replay NodeConfig_default
            \<lparr>rid_param = None, made_rid = [],
             req_body = JObj [(''rid'', JStr ''r1''), (''op'', JStr ''PUT''),
                              (''key'', JStr ''x''), (''value'', JStr ''1'')]\<rparr>
            (Suc 2) Node_init) =
     Map.empty(''x'' \<mapsto> ''1'')
   \<and> store (replay NodeConfig_default
            \<lparr>rid_param = None, made_rid = [],
             req_body = JObj [(''rid'', JStr ''r2''), (''op'', JStr ''DEL''),
                              (''key'', JStr ''x'')]\<rparr>
            (Suc 2) Node_init) ''x'' = None"
proof -
  let ?kvs = "[(''rid'', JStr ''r1''), (''op'', JStr ''PUT''),
               (''key'', JStr ''x''), (''value'', JStr ''1'')]"
  let ?kvd = "[(''rid'', JStr ''r2''), (''op'', JStr ''DEL''), (''key'', JStr ''x'')]"
  let ?put = "\<lparr>rid_param = None, made_rid = [], req_body = JObj ?kvs\<rparr>"
  let ?del = "\<lparr>rid_param = None, made_rid = [], req_body = JObj ?kvd\<rparr>"
  have p1: "req_body ?put = JObj ?kvs" by simp
  have p2: "map_of ?kvs ''op'' = Some (JStr ''PUT'')" by simp
  have p3: "''PUT'' = ''PUT'' \<or> ''PUT'' = ''DEL''" by simp
  have p4: "map_of ?kvs ''key'' = Some (JStr ''x'')" by simp
  have p5: "map_of ?kvs ''rid'' = Some (JStr ''r1'')" by simp
  have p6: "value_or (JObj ?kvs) ''value'' [] = Inr ''1''" by (simp add: value_or_def)
  have d1: "req_body ?del = JObj ?kvd" by simp
  have d2: "map_of ?kvd ''op'' = Some (JStr ''DEL'')" by simp
  have d3: "''DEL'' = ''PUT'' \<or> ''DEL'' = ''DEL''" by simp
  have d4: "map_of ?kvd ''key'' = Some (JStr ''x'')" by simp
  have d5: "map_of ?kvd ''rid'' = Some (JStr ''r2'')" by simp
  have d6: "value_or (JObj ?kvd) ''value'' [] = Inr []" by (simp add: value_or_def)
  show ?thesis
    using replicated_apply_idempotent [OF p1 p2 p3 p4 p5 p6, of NodeConfig_default 2 Node_init]
      replicated_apply_idempotent [OF d1 d2 d3 d4 d5 d6, of NodeConfig_default 2 Node_init]
    by (simp add: Node_init_fields)
qed

text \<open>
  Claim C10, as the code has it. A replicate request with the strings \<open>op\<close>, \<open>key\<close> and \<open>rid\<close>
  (and \<open>value\<close> a string or absent) whose \<open>op\<close> is neither PUT nor DEL is
  answered with status 200, logs one \<open>replicate_apply\<close> event naming the
  operation, and leaves the store as it was.
\<close>

theorem replicate_unknown_op_acknowledged:
  assumes "req_body req = JObj kvs"
    and "map_of kvs ''op'' = Some (JStr opn)"
    and "opn \<noteq> ''PUT''" and "opn \<noteq> ''DEL''"
    and "map_of kvs ''key'' = Some (JStr k)"
    and "map_of kvs ''rid'' = Some (JStr r)"
    and "value_or (JObj kvs) ''value'' [] = Inr v"
  shows "fst (replicate_handler cfg req n) =
           Returned \<lparr>status = 200, content = JObj [(''ok'', JBool True)]\<rparr>
         \<and> store (snd (replicate_handler cfg req n)) = store n
         \<and> (\<exists>ev. log (snd (replicate_handler cfg req n)) = log n @ [ev]
                \<and> event_field ev ''type'' = Some (JStr ''replicate_apply'')
                \<and> event_field ev ''op'' = Some (JStr opn))"
  using assms(3,4)
  by (simp add: replicate_handler_wf [OF assms(1,2,5,6,7)] log_event_def Let_def
        event_field_def)

text \<open>An operation named GET sent to a fresh follower is acknowledged and changes nothing.\<close>

theorem replicate_unknown_op_acknowledged_witness:
  "fst (replicate_handler NodeConfig_default
          \<lparr>rid_param = None, made_rid = [],
           req_body = JObj [(''rid'', JStr ''r1''), (''op'', JStr ''GET''),
                            (''key'', JStr ''x'')]\<rparr> Node_init) =
     Returned \<lparr>status = 200, content = JObj [(''ok'', JBool True)]\<rparr>
   \<and> store (snd (replicate_handler NodeConfig_default
          \<lparr>rid_param = None, made_rid = [],
           req_body = JObj [(''rid'', JStr ''r1''), (''op'', JStr ''GET''),
                            (''key'', JStr ''x'')]\<rparr> Node_init)) = Map.empty
   \<and> length (log (snd (replicate_handler NodeConfig_default
          \<lparr>rid_param = None, made_rid = [],
           req_body = JObj [(''rid'', JStr ''r1''), (''op'', JStr ''GET''),
                            (''key'', JStr ''x'')]\<rparr> Node_init))) = 1"
proof -
  let ?kvs = "[(''rid'', JStr ''r1''), (''op'', JStr ''GET''), (''key'', JStr ''x'')]"
  let ?req = "\<lparr>rid_param = None, made_rid = [], req_body = JObj ?kvs\<rparr>"
  have h1: "req_body ?req = JObj ?kvs" by simp
  have h2: "map_of ?kvs ''op'' = Some (JStr ''GET'')" by simp
  have h3: "''GET'' \<noteq> ''PUT''" by simp
  have h4: "''GET'' \<noteq> ''DEL''" by simp
  have h5: "map_of ?kvs ''key'' = Some (JStr ''x'')" by simp
  have h6: "map_of ?kvs ''rid'' = Some (JStr ''r1'')" by simp
  have h7: "value_or (JObj ?kvs) ''value'' [] = Inr []" by (simp add: value_or_def)
  show ?thesis
    using replicate_unknown_op_acknowledged [OF h1 h2 h3 h4 h5 h6 h7, of NodeConfig_default Node_init]
    by (auto simp: Node_init_fields)
qed

text \<open>
  As worded, the claim covers every request that contains \<open>rid\<close>, \<open>op\<close> and
  \<open>key\<close>. The handler reads \<open>value\<close> as a string for every operation: with
  the unknown operation GET and the number 7 as value it throws, so nothing
  is acknowledged and nothing is logged.
\<close>

theorem replicate_nonstring_value_counterexample:
  "contains (JObj [(''rid'', JStr ''r1''), (''op'', JStr ''GET''), (''key'', JStr ''x''),
                   (''value'', JNum 7)]) ''rid''
   \<and> contains (JObj [(''rid'', JStr ''r1''), (''op'', JStr ''GET''), (''key'', JStr ''x''),
                   (''value'', JNum 7)]) ''op''
   \<and> contains (JObj [(''rid'', JStr ''r1''), (''op'', JStr ''GET''), (''key'', JStr ''x''),
                   (''value'', JNum 7)]) ''key''
   \<and> ''GET'' \<noteq> ''PUT'' \<and> ''GET'' \<noteq> ''DEL''
   \<and> replicate_handler NodeConfig_default
        \<lparr>rid_param = None, made_rid = [],
         req_body = JObj [(''rid'', JStr ''r1''), (''op'', JStr ''GET''), (''key'', JStr ''x''),
                          (''value'', JNum 7)]\<rparr> Node_init =
       (Threw type_error_302, Node_init)"
  by (simp add: replicate_handler_def Let_def contains_def is_discarded_def get_string_def
        value_or_def)

end
